theory Spec2Isabelle
  imports Main
begin

section \<open>The fleet resolver service (src/services/fleetService.ts)\<close>

text \<open>
  The service consists of three eligibility matrices, a vehicle catalog, an ETA estimator
  (\<open>calculateETA\<close>), the resolver (\<open>getFleetOptions\<close>) and a reverse lookup
  (\<open>getVehicleDisplayInfo\<close>, the spec's \<open>describeVehicle\<close>).

  Modelling decisions:
  \<^item> A JavaScript string is modelled by the byte sequence of its UTF-8 encoding, as it
    stands in the source file. Every key and vehicle name of the tables is ASCII (lemma
    \<open>table_names_ascii\<close>); only the icon glyphs are not, and they are only copied and
    never inspected.
  \<^item> The numbers of the tables (prices, base durations) and the rank positions are
    non-negative integers far below \<open>2^53\<close>, where the arithmetic of JavaScript numbers
    is exact and a number is rendered in plain decimal; they are modelled by \<open>nat\<close>.
  \<^item> The tables are object literals, so they are association lists in the order of the
    source (\<open>Object.keys\<close> lists keys that are not array indices in insertion order,
    and no key of the tables is one), and a property access \<open>table[key]\<close> that finds no
    own property goes on to \<open>Object.prototype\<close>.
  \<^item> A thrown exception (a rejected promise for the asynchronous resolver) is the left
    summand of the result.
  \<^item> The 300 ms delay of the resolver and its \<open>console.warn\<close> do not influence the
    returned value and are left out.
\<close>

subsection \<open>Strings and numbers\<close>

text \<open>\<open>String.prototype.toLowerCase\<close> on ASCII: only \<open>A\<close> .. \<open>Z\<close> change.\<close>

definition lowerChar :: "char \<Rightarrow> char" where
  "lowerChar c =
     (case map_of (zip ''ABCDEFGHIJKLMNOPQRSTUVWXYZ'' ''abcdefghijklmnopqrstuvwxyz'') c of
        Some l \<Rightarrow> l
      | None \<Rightarrow> c)"

definition toLowerCase :: "string \<Rightarrow> string" where
  "toLowerCase s = map lowerChar s"

text \<open>The ASCII members of the regular expression class \<open>\s\<close>: tab, line feed, vertical
  tab, form feed, carriage return and space.\<close>

definition isWhiteSpace :: "char \<Rightarrow> bool" where
  "isWhiteSpace c = (c \<in> set [CHR 0x09, CHR 0x0A, CHR 0x0B, CHR 0x0C, CHR 0x0D, CHR 0x20])"

text \<open>\<open>s.replace(/\s+/g, '-')\<close>: every maximal run of white space becomes one hyphen.\<close>

function replaceWhiteSpace :: "string \<Rightarrow> string" where
  "replaceWhiteSpace [] = []"
| "replaceWhiteSpace (c # cs) =
     (if isWhiteSpace c then CHR ''-'' # replaceWhiteSpace (dropWhile isWhiteSpace cs)
      else c # replaceWhiteSpace cs)"
  by pat_completeness auto
termination
  by (relation "measure length") (auto simp: length_dropWhile_le less_Suc_eq_le)

text \<open>The expression \<open>name.toLowerCase().replace(/\s+/g, '-')\<close>, which the source writes
  out twice (lines 234 and 253); the spec calls it the slug of the name. The source applies
  it to vehicle names of the matrices and to keys of the catalog only, never to an
  argument of an exported function.\<close>

definition slug :: "string \<Rightarrow> string" where
  "slug s = replaceWhiteSpace (toLowerCase s)"

text \<open>The decimal rendering of a non-negative integer, as a template literal produces it.\<close>

definition digit :: "nat \<Rightarrow> char" where
  "digit d = ''0123456789'' ! d"

function numberToString :: "nat \<Rightarrow> string" where
  "numberToString n = (if n < 10 then [digit n] else numberToString (n div 10) @ [digit (n mod 10)])"
  by pat_completeness auto
termination
  by (relation "measure id") auto

declare numberToString.simps [simp del]

subsection \<open>Property access on an object literal\<close>

text \<open>
  What \<open>obj[key]\<close> yields for an object literal \<open>obj\<close>: the own property when there is
  one, else the property that \<open>Object.prototype\<close> has under that name, else
  \<open>undefined\<close>. The members of \<open>Object.prototype\<close> are built-in functions, each with its
  name and its \<open>length\<close>, and the accessor \<open>__proto__\<close>, which yields \<open>Object.prototype\<close>
  itself.
\<close>

datatype builtin = NativeFunction string nat | ObjectPrototype

datatype 'a property = Own 'a | Inherited builtin | Undefined

definition objectPrototype :: "(string \<times> builtin) list" where
  "objectPrototype =
    [(''constructor'', NativeFunction ''Object'' 1),
     (''__defineGetter__'', NativeFunction ''__defineGetter__'' 2),
     (''__defineSetter__'', NativeFunction ''__defineSetter__'' 2),
     (''hasOwnProperty'', NativeFunction ''hasOwnProperty'' 1),
     (''__lookupGetter__'', NativeFunction ''__lookupGetter__'' 1),
     (''__lookupSetter__'', NativeFunction ''__lookupSetter__'' 1),
     (''isPrototypeOf'', NativeFunction ''isPrototypeOf'' 1),
     (''propertyIsEnumerable'', NativeFunction ''propertyIsEnumerable'' 1),
     (''toString'', NativeFunction ''toString'' 0),
     (''valueOf'', NativeFunction ''valueOf'' 0),
     (''__proto__'', ObjectPrototype),
     (''toLocaleString'', NativeFunction ''toLocaleString'' 0)]"

definition getProperty :: "(string \<times> 'a) list \<Rightarrow> string \<Rightarrow> 'a property" where
  "getProperty obj key =
     (case map_of obj key of
        Some v \<Rightarrow> Own v
      | None \<Rightarrow> (case map_of objectPrototype key of
                   Some b \<Rightarrow> Inherited b
                 | None \<Rightarrow> Undefined))"

text \<open>The string that a built-in converts to when it is an operand of \<open>+\<close>: the source
  text of a native function (as V8 prints it; the standard fixes it up to white space),
  and \<open>[object Object]\<close> for \<open>Object.prototype\<close>.\<close>

fun builtinToString :: "builtin \<Rightarrow> string" where
  "builtinToString (NativeFunction f n) = ''function '' @ f @ ''() { [native code] }''"
| "builtinToString ObjectPrototype = ''[object Object]''"

subsection \<open>Data model\<close>

datatype service_type = Ride | Package | Truck | Towing

datatype badge = RECOMMENDED | FASTER | CHEAPER

datatype category = recommended | faster | cheaper

text \<open>The type \<open>number | string\<close> of the field \<open>capacity\<close>.\<close>

datatype capacity = CapacityNumber nat | CapacityString string

text \<open>The interface \<open>FleetVehicle\<close>; its field \<open>id\<close> is \<open>vehicle_id\<close> here.\<close>

record FleetVehicle =
  vehicle_id :: string
  name :: string
  description :: string
  eta :: string
  price :: nat
  originalPrice :: "nat option"
  capacity :: capacity
  badge :: "badge option"
  icon :: string
  category :: category

text \<open>A catalog entry has the type \<open>Partial<FleetVehicle>\<close>: every field may be missing.
  These are the fields that the catalog sets and the resolver reads.\<close>

record metadata =
  md_icon :: "string option"
  md_capacity :: "capacity option"
  md_description :: "string option"
  md_price :: "nat option"
  md_originalPrice :: "nat option"

text \<open>The result \<open>{ name, icon }\<close> of the reverse lookup.\<close>

record display_info =
  display_name :: string
  display_icon :: string

datatype error = TypeError

subsection \<open>The eligibility matrices\<close>

definition truckMatrix :: "(string \<times> string list) list" where
  "truckMatrix =
    [(''house-shifting'', [''1 Ton Truck'', ''3 Ton Truck'']),
     (''farm-produce'', [''Dropside Truck'', ''3 Ton Truck'']),
     (''construction-material'', [''3 Ton Truck'', ''4 Ton Truck'']),
     (''building-sand'', [''Tipper Truck'', ''4 Ton Truck'']),
     (''furniture'', [''1 Ton Truck'', ''Enclosed Truck'']),
     (''bulk-goods'', [''4 Ton Truck'', ''Dropside Truck''])]"

definition packageMatrix :: "(string \<times> string list) list" where
  "packageMatrix =
    [(''0-5kg'', [''Bicycle'', ''Motorbike'', ''Car'']),
     (''5-10kg'', [''Motorbike'', ''Car'']),
     (''10-20kg'', [''Car'', ''Small Van'']),
     (''20-50kg'', [''Small Van'', ''Bakkie''])]"

definition towingMatrix :: "(string \<times> string list) list" where
  "towingMatrix =
    [(''sedan'', [''Flatbed Tow'', ''Standard Tow'']),
     (''suv'', [''Heavy Duty Tow'', ''Flatbed Tow'']),
     (''bakkie'', [''Heavy Duty Tow'', ''Flatbed Tow'']),
     (''small-truck'', [''Industrial Tow'', ''Heavy Duty Tow'']),
     (''van'', [''Flatbed Tow'', ''Heavy Duty Tow''])]"

subsection \<open>The vehicle catalog\<close>

text \<open>The icon glyphs, as UTF-8: U+1F69A, U+1F69B, U+1F6B4, U+1F3CD U+FE0F, U+1F697,
  U+1F690 and U+1F6FB.\<close>

definition deliveryTruckGlyph :: string where
  "deliveryTruckGlyph = [CHR 0xF0, CHR 0x9F, CHR 0x9A, CHR 0x9A]"

definition articulatedLorryGlyph :: string where
  "articulatedLorryGlyph = [CHR 0xF0, CHR 0x9F, CHR 0x9A, CHR 0x9B]"

definition bicyclistGlyph :: string where
  "bicyclistGlyph = [CHR 0xF0, CHR 0x9F, CHR 0x9A, CHR 0xB4]"

definition motorcycleGlyph :: string where
  "motorcycleGlyph = [CHR 0xF0, CHR 0x9F, CHR 0x8F, CHR 0x8D, CHR 0xEF, CHR 0xB8, CHR 0x8F]"

definition carGlyph :: string where
  "carGlyph = [CHR 0xF0, CHR 0x9F, CHR 0x9A, CHR 0x97]"

definition minibusGlyph :: string where
  "minibusGlyph = [CHR 0xF0, CHR 0x9F, CHR 0x9A, CHR 0x90]"

definition pickupTruckGlyph :: string where
  "pickupTruckGlyph = [CHR 0xF0, CHR 0x9F, CHR 0x9B, CHR 0xBB]"

text \<open>One catalog entry: icon, capacity, description, price, originalPrice.\<close>

definition catalogEntry :: "string \<Rightarrow> string \<Rightarrow> string \<Rightarrow> nat \<Rightarrow> nat \<Rightarrow> metadata" where
  "catalogEntry i c d p q =
     \<lparr>md_icon = Some i, md_capacity = Some (CapacityString c), md_description = Some d,
      md_price = Some p, md_originalPrice = Some q\<rparr>"

definition vehicleMetadata :: "(string \<times> metadata) list" where
  "vehicleMetadata =
    [(''1 Ton Truck'', catalogEntry deliveryTruckGlyph ''1 Ton'' ''Small moves'' 180 230),
     (''3 Ton Truck'', catalogEntry articulatedLorryGlyph ''3 Tons'' ''Medium loads'' 280 350),
     (''4 Ton Truck'', catalogEntry articulatedLorryGlyph ''4 Tons'' ''Heavy loads'' 380 480),
     (''Dropside Truck'', catalogEntry deliveryTruckGlyph ''2.5 Tons'' ''Open sided'' 250 310),
     (''Tipper Truck'', catalogEntry articulatedLorryGlyph ''5 Tons'' ''Tipping bed'' 420 520),
     (''Enclosed Truck'', catalogEntry deliveryTruckGlyph ''1.5 Tons'' ''Protected cargo'' 220 280),
     (''Bicycle'', catalogEntry bicyclistGlyph ''5kg'' ''Eco-friendly'' 25 35),
     (''Motorbike'', catalogEntry motorcycleGlyph ''10kg'' ''Fast delivery'' 40 55),
     (''Car'', catalogEntry carGlyph ''20kg'' ''Standard delivery'' 60 80),
     (''Small Van'', catalogEntry minibusGlyph ''50kg'' ''Larger packages'' 90 115),
     (''Bakkie'', catalogEntry pickupTruckGlyph ''100kg'' ''Heavy packages'' 120 150),
     (''Flatbed Tow'', catalogEntry articulatedLorryGlyph ''Standard'' ''Most vehicles'' 350 450),
     (''Standard Tow'', catalogEntry carGlyph ''Light'' ''Small cars'' 280 350),
     (''Heavy Duty Tow'', catalogEntry articulatedLorryGlyph ''Heavy'' ''SUVs & Bakkies'' 450 570),
     (''Industrial Tow'', catalogEntry articulatedLorryGlyph ''Industrial'' ''Large vehicles'' 600 750)]"

text \<open>The empty object \<open>{}\<close>, and what reading the five fields off a built-in gives.\<close>

definition emptyMetadata :: metadata where
  "emptyMetadata =
     \<lparr>md_icon = None, md_capacity = None, md_description = None,
      md_price = None, md_originalPrice = None\<rparr>"

subsection \<open>The ETA estimator\<close>

definition baseETAs :: "(string \<times> nat) list" where
  "baseETAs =
    [(''Bicycle'', 15),
     (''Motorbike'', 5),
     (''Car'', 8),
     (''Small Van'', 12),
     (''Bakkie'', 15),
     (''1 Ton Truck'', 20),
     (''3 Ton Truck'', 25),
     (''4 Ton Truck'', 30),
     (''Dropside Truck'', 25),
     (''Tipper Truck'', 30),
     (''Enclosed Truck'', 20),
     (''Flatbed Tow'', 25),
     (''Standard Tow'', 20),
     (''Heavy Duty Tow'', 30),
     (''Industrial Tow'', 35)]"

text \<open>
  \<open>baseETAs[vehicleName] || 15\<close>: an own number is kept unless it is \<open>0\<close> (falsy);
  \<open>undefined\<close> gives \<open>15\<close>; a built-in inherited from \<open>Object.prototype\<close> is truthy and
  is kept. Then \<open>baseTime + index * 3\<close> adds two numbers, and when \<open>baseTime\<close> is a
  built-in it concatenates the built-in's string with the rendering of \<open>index * 3\<close>.

  The parameter \<open>index\<close> is a \<open>number\<close> in the source; its only caller passes the index
  of an array element. The model computes on \<open>nat\<close>, which agrees with the source as long
  as the sum is below \<open>2^53\<close>; beyond that a double rounds and the model says nothing
  about the source. The properties of the estimator are stated for array indices.
\<close>

definition calculateETA :: "string \<Rightarrow> nat \<Rightarrow> string" where
  "calculateETA vehicleName index =
     (case getProperty baseETAs vehicleName of
        Own b \<Rightarrow> numberToString ((if b = 0 then 15 else b) + index * 3)
      | Inherited f \<Rightarrow> builtinToString f @ numberToString (index * 3)
      | Undefined \<Rightarrow> numberToString (15 + index * 3)) @ '' min''"

subsection \<open>The resolver\<close>

text \<open>The operator \<open>||\<close> on an optional string and on an optional number: the default
  replaces \<open>undefined\<close>, the empty string and \<open>0\<close>.\<close>

fun orString :: "string option \<Rightarrow> string \<Rightarrow> string" where
  "orString None d = d"
| "orString (Some s) d = (if s = [] then d else s)"

fun orNumber :: "nat option \<Rightarrow> nat \<Rightarrow> nat" where
  "orNumber None d = d"
| "orNumber (Some n) d = (if n = 0 then d else n)"

fun orCapacity :: "capacity option \<Rightarrow> capacity \<Rightarrow> capacity" where
  "orCapacity None d = d"
| "orCapacity (Some (CapacityNumber n)) d = (if n = 0 then d else CapacityNumber n)"
| "orCapacity (Some (CapacityString s)) d = (if s = [] then d else CapacityString s)"

text \<open>\<open>vehicleMetadata[vehicleName] || {}\<close>: a built-in is truthy and has none of the
  five fields, so it reads like the empty object.\<close>

definition metadataOf :: "string \<Rightarrow> metadata" where
  "metadataOf vehicleName =
     (case getProperty vehicleMetadata vehicleName of
        Own m \<Rightarrow> m
      | Inherited f \<Rightarrow> emptyMetadata
      | Undefined \<Rightarrow> emptyMetadata)"

text \<open>The callback of \<open>vehicleNames.map\<close> (lines 214 to 245).\<close>

definition buildVehicle :: "string \<Rightarrow> nat \<Rightarrow> FleetVehicle" where
  "buildVehicle vehicleName index =
     (let metadata = metadataOf vehicleName;
          (category, badge) =
            (if index = 0 then (recommended, Some RECOMMENDED)
             else if index = 1 then (cheaper, Some CHEAPER)
             else (faster, None))
      in \<lparr>vehicle_id = slug vehicleName,
          name = vehicleName,
          description = orString (md_description metadata) ''Available now'',
          eta = calculateETA vehicleName index,
          price = orNumber (md_price metadata) 100,
          originalPrice = md_originalPrice metadata,
          capacity = orCapacity (md_capacity metadata) (CapacityString ''Standard''),
          badge = badge,
          icon = orString (md_icon metadata) carGlyph,
          category = category\<rparr>)"

text \<open>\<open>extraOption || ""\<close> for the optional parameter.\<close>

definition optionKey :: "string option \<Rightarrow> string" where
  "optionKey extraOption = orString extraOption ''''"

text \<open>What the variable \<open>vehicleNames\<close> can hold after \<open>matrix[key] || []\<close>: an array
  of names, or a built-in inherited from \<open>Object.prototype\<close>. Arrays and built-ins are
  truthy; \<open>undefined\<close> gives the empty array.\<close>

datatype names_value = Names "string list" | Builtin builtin

definition namesOf :: "(string \<times> string list) list \<Rightarrow> string \<Rightarrow> names_value" where
  "namesOf matrix key =
     (case getProperty matrix key of
        Own names \<Rightarrow> Names names
      | Inherited f \<Rightarrow> Builtin f
      | Undefined \<Rightarrow> Names [])"

text \<open>\<open>vehicleNames.length === 0\<close>: the length of an array, the \<open>length\<close> of a native
  function; \<open>Object.prototype\<close> has no \<open>length\<close>, and \<open>undefined === 0\<close> is false.\<close>

fun lengthIsZero :: "names_value \<Rightarrow> bool" where
  "lengthIsZero (Names names) = (length names = 0)"
| "lengthIsZero (Builtin (NativeFunction f n)) = (n = 0)"
| "lengthIsZero (Builtin ObjectPrototype) = False"

text \<open>\<open>vehicleNames.map(callback)\<close>: an array maps its elements with their indices; a
  built-in has no property \<open>map\<close>, and calling \<open>undefined\<close> throws a \<open>TypeError\<close>.\<close>

fun mapNames :: "(string \<Rightarrow> nat \<Rightarrow> 'b) \<Rightarrow> names_value \<Rightarrow> error + 'b list" where
  "mapNames f (Names names) = Inr (map (\<lambda>(i, n). f n i) (enumerate 0 names))"
| "mapNames f (Builtin b) = Inl TypeError"

definition getFleetOptions :: "service_type \<Rightarrow> string option \<Rightarrow> error + FleetVehicle list" where
  "getFleetOptions serviceType extraOption =
     (case (case serviceType of
              Truck \<Rightarrow> Some (namesOf truckMatrix (optionKey extraOption))
            | Package \<Rightarrow> Some (namesOf packageMatrix (optionKey extraOption))
            | Towing \<Rightarrow> Some (namesOf towingMatrix (optionKey extraOption))
            | Ride \<Rightarrow> None) of
        None \<Rightarrow> Inr []
      | Some vehicleNames \<Rightarrow>
          if lengthIsZero vehicleNames then Inr []
          else mapNames buildVehicle vehicleNames)"

subsection \<open>The reverse lookup\<close>

text \<open>
  \<open>Object.keys(vehicleMetadata).find(...)\<close> yields the first own key whose slug is the
  identifier, or \<open>undefined\<close>; \<open>if (vehicleName)\<close> is also false for an empty key.
  Reading \<open>metadata.icon\<close> off \<open>undefined\<close> would throw.
\<close>

definition getVehicleDisplayInfo :: "string \<Rightarrow> error + display_info" where
  "getVehicleDisplayInfo vehicleId =
     (case find (\<lambda>key. slug key = vehicleId) (map fst vehicleMetadata) of
        None \<Rightarrow> Inr \<lparr>display_name = ''Vehicle'', display_icon = carGlyph\<rparr>
      | Some vehicleName \<Rightarrow>
          if vehicleName = [] then Inr \<lparr>display_name = ''Vehicle'', display_icon = carGlyph\<rparr>
          else (case getProperty vehicleMetadata vehicleName of
                  Own metadata \<Rightarrow>
                    Inr \<lparr>display_name = vehicleName,
                         display_icon = orString (md_icon metadata) carGlyph\<rparr>
                | Inherited f \<Rightarrow>
                    Inr \<lparr>display_name = vehicleName, display_icon = carGlyph\<rparr>
                | Undefined \<Rightarrow> Inl TypeError))"


subsection \<open>Vocabulary of the properties\<close>

text \<open>A pair of a service type and a sub-option key is configured with a list of names when
  the matrix of that service type has the list as its own entry under the key. The ride
  service has no matrix.\<close>

definition configured :: "service_type \<Rightarrow> string \<Rightarrow> string list \<Rightarrow> bool" where
  "configured serviceType key names =
     (case serviceType of
        Truck \<Rightarrow> map_of truckMatrix key = Some names
      | Package \<Rightarrow> map_of packageMatrix key = Some names
      | Towing \<Rightarrow> map_of towingMatrix key = Some names
      | Ride \<Rightarrow> False)"

text \<open>A rank position is an index into an array, and a JavaScript array has fewer than
  \<open>2^32\<close> elements. On such positions, and one past them, the sums of the estimator stay
  far below \<open>2^53\<close>, so the model's arithmetic on \<open>nat\<close> is that of the source.\<close>

definition maxArrayLength :: nat where
  "maxArrayLength = 2 ^ 32 - 1"

text \<open>The left operand of \<open>||\<close> is truthy, which is when the default on the right is not
  used.\<close>

fun truthyString :: "string option \<Rightarrow> bool" where
  "truthyString None = False"
| "truthyString (Some s) = (s \<noteq> [])"

fun truthyNumber :: "nat option \<Rightarrow> bool" where
  "truthyNumber None = False"
| "truthyNumber (Some n) = (n \<noteq> 0)"

fun truthyCapacity :: "capacity option \<Rightarrow> bool" where
  "truthyCapacity None = False"
| "truthyCapacity (Some (CapacityNumber n)) = (n \<noteq> 0)"
| "truthyCapacity (Some (CapacityString s)) = (s \<noteq> [])"

section \<open>Facts about the tables\<close>

lemmas slug_defs = slug_def toLowerCase_def lowerChar_def isWhiteSpace_def

lemmas eta_defs = calculateETA_def baseETAs_def numberToString.simps digit_def

lemmas glyph_defs = deliveryTruckGlyph_def articulatedLorryGlyph_def bicyclistGlyph_def
  motorcycleGlyph_def carGlyph_def minibusGlyph_def pickupTruckGlyph_def

lemma catalog_keys:
  "map fst vehicleMetadata =
    [''1 Ton Truck'', ''3 Ton Truck'', ''4 Ton Truck'', ''Dropside Truck'', ''Tipper Truck'',
     ''Enclosed Truck'', ''Bicycle'', ''Motorbike'', ''Car'', ''Small Van'', ''Bakkie'',
     ''Flatbed Tow'', ''Standard Tow'', ''Heavy Duty Tow'', ''Industrial Tow'']"
  by (simp add: vehicleMetadata_def)

lemma catalog_slugs:
  "map slug (map fst vehicleMetadata) =
    [''1-ton-truck'', ''3-ton-truck'', ''4-ton-truck'', ''dropside-truck'', ''tipper-truck'',
     ''enclosed-truck'', ''bicycle'', ''motorbike'', ''car'', ''small-van'', ''bakkie'',
     ''flatbed-tow'', ''standard-tow'', ''heavy-duty-tow'', ''industrial-tow'']"
  unfolding catalog_keys by (simp add: slug_defs)

lemma baseETAs_keys:
  "map fst baseETAs =
    [''Bicycle'', ''Motorbike'', ''Car'', ''Small Van'', ''Bakkie'', ''1 Ton Truck'',
     ''3 Ton Truck'', ''4 Ton Truck'', ''Dropside Truck'', ''Tipper Truck'', ''Enclosed Truck'',
     ''Flatbed Tow'', ''Standard Tow'', ''Heavy Duty Tow'', ''Industrial Tow'']"
  by (simp add: baseETAs_def)

text \<open>No object literal of the source repeats a key, so the first match of \<open>map_of\<close> is
  the only one.\<close>

lemma catalog_keys_distinct: "distinct (map fst vehicleMetadata)"
  unfolding catalog_keys by simp

lemma table_keys_distinct:
  "distinct (map fst truckMatrix)" "distinct (map fst packageMatrix)"
  "distinct (map fst towingMatrix)" "distinct (map fst baseETAs)"
  by (simp_all add: truckMatrix_def packageMatrix_def towingMatrix_def baseETAs_def)

lemma catalog_slugs_distinct: "distinct (map slug (map fst vehicleMetadata))"
  unfolding catalog_slugs by simp

text \<open>Every key and every vehicle name of the tables is ASCII, where \<open>toLowerCase\<close> and
  \<open>\s\<close> are as modelled.\<close>

lemma table_names_ascii:
  "\<forall>s \<in> set (map fst vehicleMetadata @ map fst baseETAs
               @ concat (map (\<lambda>(k, ns). k # ns) (truckMatrix @ packageMatrix @ towingMatrix))).
     \<forall>c \<in> set s. (of_char c :: nat) < 128"
  unfolding catalog_keys
  by (simp add: truckMatrix_def packageMatrix_def towingMatrix_def baseETAs_def)

lemma catalog_covered: "set (map fst vehicleMetadata) \<subseteq> set (map fst baseETAs)"
  unfolding catalog_keys baseETAs_keys by simp

lemma baseETAs_nonzero: "map_of baseETAs n = Some b \<Longrightarrow> b \<noteq> 0"
  by (auto simp: baseETAs_def split: if_splits)

lemma catalog_entries:
  assumes "(n, m) \<in> set vehicleMetadata"
  shows "n \<noteq> [] \<and> (\<exists>g d c p. md_icon m = Some g \<and> g \<noteq> []
           \<and> md_description m = Some d \<and> d \<noteq> []
           \<and> md_capacity m = Some (CapacityString c) \<and> c \<noteq> []
           \<and> md_price m = Some p \<and> p \<noteq> 0)"
  using assms
  by (auto simp: vehicleMetadata_def catalogEntry_def glyph_defs)

lemma configured_cases:
  assumes "configured serviceType key names"
  shows "key \<noteq> [] \<and> names \<noteq> [] \<and> set names \<subseteq> set (map fst vehicleMetadata)"
  using assms unfolding configured_def catalog_keys
  by (cases serviceType)
     (auto simp: truckMatrix_def packageMatrix_def towingMatrix_def split: if_splits)

section \<open>Facts about the functions\<close>

subsection \<open>Rendering of numbers\<close>

lemma digit_inj: "a < 10 \<Longrightarrow> b < 10 \<Longrightarrow> digit a = digit b \<Longrightarrow> a = b"
proof -
  assume "a < 10" "b < 10" "digit a = digit b"
  moreover have "distinct ''0123456789''" by simp
  ultimately show "a = b"
    by (simp add: digit_def nth_eq_iff_index_eq)
qed

lemma numberToString_nonempty: "numberToString n \<noteq> []"
  by (subst numberToString.simps) simp

text \<open>Two numbers with the same rendering are equal, so the minute value of an ETA string
  \<open>numberToString m @ '' min''\<close> is determined by the string.\<close>

lemma numberToString_inj: "numberToString a = numberToString b \<Longrightarrow> a = b"
proof (induction a arbitrary: b rule: numberToString.induct)
  case (1 n)
  show ?case
  proof (cases "n < 10")
    case True
    then have n: "numberToString n = [digit n]" by (subst numberToString.simps) simp
    show ?thesis
    proof (cases "b < 10")
      case True
      then have "numberToString b = [digit b]" by (subst numberToString.simps) simp
      with n "1.prems" \<open>n < 10\<close> True show ?thesis by (auto dest: digit_inj)
    next
      case False
      then have "numberToString b = numberToString (b div 10) @ [digit (b mod 10)]"
        by (subst numberToString.simps) simp
      with n "1.prems" numberToString_nonempty [of "b div 10"] show ?thesis by simp
    qed
  next
    case False
    then have n: "numberToString n = numberToString (n div 10) @ [digit (n mod 10)]"
      by (subst numberToString.simps) simp
    show ?thesis
    proof (cases "b < 10")
      case True
      then have "numberToString b = [digit b]" by (subst numberToString.simps) simp
      with n "1.prems" numberToString_nonempty [of "n div 10"] show ?thesis by simp
    next
      case b: False
      then have "numberToString b = numberToString (b div 10) @ [digit (b mod 10)]"
        by (subst numberToString.simps) simp
      with n "1.prems" have e: "numberToString (n div 10) = numberToString (b div 10)"
        and d: "digit (n mod 10) = digit (b mod 10)" by simp_all
      from "1.IH" [OF False e] have "n div 10 = b div 10" .
      moreover from d have "n mod 10 = b mod 10" by (rule digit_inj [rotated 2]) simp_all
      ultimately show ?thesis by (metis div_mult_mod_eq)
    qed
  qed
qed

subsection \<open>The estimator\<close>

lemma calculateETA_own:
  assumes "map_of baseETAs vehicleName = Some b"
  shows "calculateETA vehicleName i = numberToString (b + i * 3) @ '' min''"
  using assms baseETAs_nonzero [OF assms]
  by (simp add: calculateETA_def getProperty_def)


text \<open>What the estimator would do with a name that the table inherits from
  \<open>Object.prototype\<close>: the built-in is truthy, so the default is not taken, and \<open>+\<close>
  concatenates. The estimator is private to the module and no such name is ever passed to
  it (lemma \<open>estimator_arguments\<close> below).\<close>

lemma calculateETA_constructor:
  "calculateETA ''constructor'' 2 = ''function Object() { [native code] }6 min''"
  by (simp add: eta_defs getProperty_def objectPrototype_def)

subsection \<open>The resolver\<close>

lemma getFleetOptions_configured:
  assumes "configured serviceType key names"
  shows "getFleetOptions serviceType (Some key) =
           Inr (map (\<lambda>(i, n). buildVehicle n i) (enumerate 0 names))"
proof -
  from configured_cases [OF assms] have k: "optionKey (Some key) = key" and n: "names \<noteq> []"
    by (simp_all add: optionKey_def)
  from assms n show ?thesis
    by (cases serviceType)
       (simp_all add: configured_def getFleetOptions_def k namesOf_def getProperty_def)
qed

lemma name_buildVehicle [simp]: "name (buildVehicle n i) = n"
  by (simp add: buildVehicle_def Let_def split: prod.split)

lemma rank_buildVehicle:
  "category (buildVehicle n i) = (if i = 0 then recommended else if i = 1 then cheaper else faster)"
  "badge (buildVehicle n i) = (if i = 0 then Some RECOMMENDED else if i = 1 then Some CHEAPER else None)"
  by (simp_all add: buildVehicle_def Let_def)

lemma map_name_enumerate:
  "map name (map (\<lambda>(i, n). buildVehicle n i) (enumerate k names)) = names"
  by (induction names arbitrary: k) simp_all

text \<open>Whatever list the resolver returns is the image of some list of names, each name
  built with its index.\<close>

lemma getFleetOptions_shape:
  assumes "getFleetOptions serviceType extraOption = Inr offers"
  shows "\<exists>names. offers = map (\<lambda>(i, n). buildVehicle n i) (enumerate 0 names)"
proof -
  have e: "offers = [] \<Longrightarrow> ?thesis"
    by (rule exI [of _ "[]"]) simp
  have m: "mapNames buildVehicle v = Inr offers \<Longrightarrow> ?thesis" for v
    by (cases v) auto
  from assms have "offers = [] \<or> (\<exists>v. mapNames buildVehicle v = Inr offers)"
    unfolding getFleetOptions_def
    by (auto split: option.splits if_splits)
  then show ?thesis
    using e m by blast
qed

text \<open>A returned list is empty or built from an entry that the matrix of the service type
  has under the key.\<close>

lemma mapNames_Inr:
  assumes "mapNames f v = Inr offers"
  shows "\<exists>names. v = Names names \<and> offers = map (\<lambda>(i, n). f n i) (enumerate 0 names)"
  using assms by (cases v) auto

lemma namesOf_Names:
  assumes "namesOf matrix key = Names names"
  shows "names = [] \<or> map_of matrix key = Some names"
  using assms
  by (auto simp: namesOf_def getProperty_def split: option.splits)

lemma getFleetOptions_returns:
  assumes "getFleetOptions serviceType extraOption = Inr offers"
  shows "offers = [] \<or>
         (\<exists>names. configured serviceType (optionKey extraOption) names
            \<and> offers = map (\<lambda>(i, n). buildVehicle n i) (enumerate 0 names))"
proof (cases serviceType)
  case Ride
  with assms show ?thesis by (simp add: getFleetOptions_def)
next
  case Package
  show ?thesis
  proof (cases "lengthIsZero (namesOf packageMatrix (optionKey extraOption))")
    case True
    with assms Package show ?thesis by (simp add: getFleetOptions_def)
  next
    case False
    with assms Package
    have "mapNames buildVehicle (namesOf packageMatrix (optionKey extraOption)) = Inr offers"
      by (simp add: getFleetOptions_def)
    from mapNames_Inr [OF this] obtain names
      where n: "namesOf packageMatrix (optionKey extraOption) = Names names"
        and o: "offers = map (\<lambda>(i, n). buildVehicle n i) (enumerate 0 names)" by auto
    from False n have "names \<noteq> []" by simp
    with namesOf_Names [OF n] have "configured Package (optionKey extraOption) names"
      by (simp add: configured_def)
    with o Package show ?thesis by auto
  qed
next
  case Truck
  show ?thesis
  proof (cases "lengthIsZero (namesOf truckMatrix (optionKey extraOption))")
    case True
    with assms Truck show ?thesis by (simp add: getFleetOptions_def)
  next
    case False
    with assms Truck
    have "mapNames buildVehicle (namesOf truckMatrix (optionKey extraOption)) = Inr offers"
      by (simp add: getFleetOptions_def)
    from mapNames_Inr [OF this] obtain names
      where n: "namesOf truckMatrix (optionKey extraOption) = Names names"
        and o: "offers = map (\<lambda>(i, n). buildVehicle n i) (enumerate 0 names)" by auto
    from False n have "names \<noteq> []" by simp
    with namesOf_Names [OF n] have "configured Truck (optionKey extraOption) names"
      by (simp add: configured_def)
    with o Truck show ?thesis by auto
  qed
next
  case Towing
  show ?thesis
  proof (cases "lengthIsZero (namesOf towingMatrix (optionKey extraOption))")
    case True
    with assms Towing show ?thesis by (simp add: getFleetOptions_def)
  next
    case False
    with assms Towing
    have "mapNames buildVehicle (namesOf towingMatrix (optionKey extraOption)) = Inr offers"
      by (simp add: getFleetOptions_def)
    from mapNames_Inr [OF this] obtain names
      where n: "namesOf towingMatrix (optionKey extraOption) = Names names"
        and o: "offers = map (\<lambda>(i, n). buildVehicle n i) (enumerate 0 names)" by auto
    from False n have "names \<noteq> []" by simp
    with namesOf_Names [OF n] have "configured Towing (optionKey extraOption) names"
      by (simp add: configured_def)
    with o Towing show ?thesis by auto
  qed
qed

text \<open>The arguments of every call of the estimator: the resolver is its only caller, and it
  passes the name of an offer together with the offer's index. Each such name is a key of
  the table of base durations, and each such index is an array index.\<close>

lemma eta_buildVehicle: "eta (buildVehicle n i) = calculateETA n i"
  by (simp add: buildVehicle_def Let_def split: prod.split)

lemma estimator_arguments:
  assumes "getFleetOptions serviceType extraOption = Inr offers" and "i < length offers"
  shows "eta (offers ! i) = calculateETA (name (offers ! i)) i
       \<and> name (offers ! i) \<in> fst ` set baseETAs \<and> i < maxArrayLength"
proof -
  from assms(2) have "offers \<noteq> []" by auto
  with getFleetOptions_returns [OF assms(1)] obtain names
    where c: "configured serviceType (optionKey extraOption) names"
      and o: "offers = map (\<lambda>(i, n). buildVehicle n i) (enumerate 0 names)" by auto
  from o assms(2) have l: "i < length names" by simp
  then have v: "offers ! i = buildVehicle (names ! i) i"
    by (simp add: o nth_enumerate_eq)
  from configured_cases [OF c] l catalog_covered
  have k: "names ! i \<in> fst ` set baseETAs" by (metis nth_mem subsetD set_map)
  have "length names \<le> 3"
    using c unfolding configured_def
    by (cases serviceType)
       (auto simp: truckMatrix_def packageMatrix_def towingMatrix_def split: if_splits)
  with l have "i < maxArrayLength" by (simp add: maxArrayLength_def)
  with k show ?thesis
    unfolding v by (simp add: eta_buildVehicle)
qed

lemma house_shifting_offers:
  "getFleetOptions Truck (Some ''house-shifting'') =
     Inr [\<lparr>vehicle_id = ''1-ton-truck'', name = ''1 Ton Truck'', description = ''Small moves'',
           eta = ''20 min'', price = 180, originalPrice = Some 230,
           capacity = CapacityString ''1 Ton'', badge = Some RECOMMENDED,
           icon = deliveryTruckGlyph, category = recommended\<rparr>,
          \<lparr>vehicle_id = ''3-ton-truck'', name = ''3 Ton Truck'', description = ''Medium loads'',
           eta = ''28 min'', price = 280, originalPrice = Some 350,
           capacity = CapacityString ''3 Tons'', badge = Some CHEAPER,
           icon = articulatedLorryGlyph, category = cheaper\<rparr>]"
  by (simp add: getFleetOptions_def optionKey_def namesOf_def getProperty_def truckMatrix_def
      buildVehicle_def metadataOf_def vehicleMetadata_def catalogEntry_def slug_defs eta_defs
      deliveryTruckGlyph_def articulatedLorryGlyph_def)

lemma zero_five_kg_offers:
  "getFleetOptions Package (Some ''0-5kg'') =
     Inr [\<lparr>vehicle_id = ''bicycle'', name = ''Bicycle'', description = ''Eco-friendly'',
           eta = ''15 min'', price = 25, originalPrice = Some 35,
           capacity = CapacityString ''5kg'', badge = Some RECOMMENDED,
           icon = bicyclistGlyph, category = recommended\<rparr>,
          \<lparr>vehicle_id = ''motorbike'', name = ''Motorbike'', description = ''Fast delivery'',
           eta = ''8 min'', price = 40, originalPrice = Some 55,
           capacity = CapacityString ''10kg'', badge = Some CHEAPER,
           icon = motorcycleGlyph, category = cheaper\<rparr>,
          \<lparr>vehicle_id = ''car'', name = ''Car'', description = ''Standard delivery'',
           eta = ''14 min'', price = 60, originalPrice = Some 80,
           capacity = CapacityString ''20kg'', badge = None,
           icon = carGlyph, category = faster\<rparr>]"
  by (simp add: getFleetOptions_def optionKey_def namesOf_def getProperty_def packageMatrix_def
      buildVehicle_def metadataOf_def vehicleMetadata_def catalogEntry_def slug_defs eta_defs
      bicyclistGlyph_def motorcycleGlyph_def carGlyph_def)

text \<open>The resolver returns the empty list for a key that is neither configured for the
  service type nor the name of a member of \<open>Object.prototype\<close>; the absent and the empty
  sub-option are such keys.\<close>

lemma getFleetOptions_unconfigured:
  assumes "serviceType = Truck \<longrightarrow> map_of truckMatrix (optionKey extraOption) = None"
      and "serviceType = Package \<longrightarrow> map_of packageMatrix (optionKey extraOption) = None"
      and "serviceType = Towing \<longrightarrow> map_of towingMatrix (optionKey extraOption) = None"
      and "map_of objectPrototype (optionKey extraOption) = None"
  shows "getFleetOptions serviceType extraOption = Inr []"
  using assms
  by (cases serviceType) (simp_all add: getFleetOptions_def namesOf_def getProperty_def)

lemma getFleetOptions_absent_option: "getFleetOptions serviceType None = Inr []"
  by (rule getFleetOptions_unconfigured)
     (simp_all add: optionKey_def truckMatrix_def packageMatrix_def towingMatrix_def
       objectPrototype_def)

lemma getFleetOptions_unknown_key: "getFleetOptions Truck (Some ''unknown-key'') = Inr []"
  by (rule getFleetOptions_unconfigured)
     (simp_all add: optionKey_def truckMatrix_def objectPrototype_def)

text \<open>An inherited function of length \<open>0\<close> passes for an empty array.\<close>

lemma getFleetOptions_toString: "getFleetOptions Truck (Some ''toString'') = Inr []"
  by (simp add: getFleetOptions_def optionKey_def namesOf_def getProperty_def truckMatrix_def
      objectPrototype_def)

lemma orString_truthy: "truthyString s \<Longrightarrow> Some (orString s d) = s"
  by (cases s) simp_all

lemma orNumber_truthy: "truthyNumber n \<Longrightarrow> Some (orNumber n d) = n"
  by (cases n) simp_all

lemma orCapacity_truthy: "truthyCapacity c \<Longrightarrow> Some (orCapacity c d) = c"
  by (cases c rule: truthyCapacity.cases) simp_all

subsection \<open>The reverse lookup\<close>

lemma find_first:
  "distinct (map f xs) \<Longrightarrow> x \<in> set xs \<Longrightarrow> find (\<lambda>k. f k = f x) xs = Some x"
  by (induction xs) auto

lemma filter_distinct_le_one:
  "distinct (map f xs) \<Longrightarrow> length (filter (\<lambda>k. f k = v) xs) \<le> 1"
proof (induction xs)
  case Nil
  show ?case by simp
next
  case (Cons a xs)
  show ?case
  proof (cases "f a = v")
    case True
    from Cons.prems have "f a \<notin> f ` set xs" by simp
    with True have "\<forall>k \<in> set xs. f k \<noteq> v" by blast
    then have "filter (\<lambda>k. f k = v) xs = []" by (simp add: filter_empty_conv)
    with True show ?thesis by simp
  next
    case False
    with Cons show ?thesis by simp
  qed
qed

lemma getVehicleDisplayInfo_found:
  assumes "(n, m) \<in> set vehicleMetadata"
  shows "\<exists>g. md_icon m = Some g \<and>
           getVehicleDisplayInfo (slug n) = Inr \<lparr>display_name = n, display_icon = g\<rparr>"
proof -
  from assms have "n \<in> set (map fst vehicleMetadata)" by force
  with catalog_slugs_distinct
  have f: "find (\<lambda>key. slug key = slug n) (map fst vehicleMetadata) = Some n"
    by (rule find_first)
  from assms catalog_keys_distinct have p: "getProperty vehicleMetadata n = Own m"
    by (simp add: getProperty_def)
  from catalog_entries [OF assms] obtain g where "n \<noteq> []" "md_icon m = Some g" "g \<noteq> []"
    by blast
  then show ?thesis
    by (simp add: getVehicleDisplayInfo_def f p)
qed

lemma getVehicleDisplayInfo_not_found:
  assumes "vehicleId \<notin> slug ` fst ` set vehicleMetadata"
  shows "getVehicleDisplayInfo vehicleId =
           Inr \<lparr>display_name = ''Vehicle'', display_icon = carGlyph\<rparr>"
proof -
  from assms have "find (\<lambda>key. slug key = vehicleId) (map fst vehicleMetadata) = None"
    by (auto simp: find_None_iff)
  then show ?thesis
    by (simp add: getVehicleDisplayInfo_def)
qed

lemma unknown_id_no_slug: "''unknown-id'' \<notin> slug ` fst ` set vehicleMetadata"
proof -
  have "slug ` fst ` set vehicleMetadata = set (map slug (map fst vehicleMetadata))"
    by (simp add: image_image)
  then show ?thesis
    unfolding catalog_slugs by simp
qed


section \<open>The properties\<close>

text \<open>
  C1. For every service type among truck, package and towing and every sub-option key that
  the matrix of that service type configures, \<open>getFleetOptions\<close> returns a non-empty list
  of offers that is as long as the matrix entry, and the display names of the offers are
  the names of the entry, in the same order.
\<close>

theorem getFleetOptions_configured_names:
  assumes "configured serviceType key names"
  shows "\<exists>offers. getFleetOptions serviceType (Some key) = Inr offers \<and> offers \<noteq> []
           \<and> length offers = length names \<and> map name offers = names"
proof -
  let ?offers = "map (\<lambda>(i, n). buildVehicle n i) (enumerate 0 names)"
  from configured_cases [OF assms] have "names \<noteq> []" by simp
  then have "length ?offers \<noteq> 0" by simp
  then have "?offers \<noteq> []" by fastforce
  moreover have "length ?offers = length names" by simp
  moreover have "map name ?offers = names" by (rule map_name_enumerate)
  ultimately show ?thesis
    using getFleetOptions_configured [OF assms] by blast
qed

theorem getFleetOptions_configured_names_witness:
  "configured Towing ''suv'' [''Heavy Duty Tow'', ''Flatbed Tow'']
   \<and> (\<exists>offers. getFleetOptions Towing (Some ''suv'') = Inr offers \<and> offers \<noteq> []
         \<and> length offers = 2 \<and> map name offers = [''Heavy Duty Tow'', ''Flatbed Tow''])"
proof -
  have c: "configured Towing ''suv'' [''Heavy Duty Tow'', ''Flatbed Tow'']"
    by (simp add: configured_def towingMatrix_def)
  from getFleetOptions_configured_names [OF c] obtain offers
    where o: "getFleetOptions Towing (Some ''suv'') = Inr offers \<and> offers \<noteq> []
      \<and> length offers = length [''Heavy Duty Tow'', ''Flatbed Tow'']
      \<and> map name offers = [''Heavy Duty Tow'', ''Flatbed Tow'']" ..
  then have "length offers = 2" by simp
  with o c show ?thesis
    by (intro conjI exI [of _ offers]) simp_all
qed

text \<open>
  C2. In every list that \<open>getFleetOptions\<close> returns, the offer at index 0 has the category
  \<open>recommended\<close> and the badge \<open>RECOMMENDED\<close>, the offer at index 1 has the category
  \<open>cheaper\<close> and the badge \<open>CHEAPER\<close>, and every offer at an index of 2 or more has the
  category \<open>faster\<close> and no badge.
\<close>

theorem getFleetOptions_rank:
  assumes "getFleetOptions serviceType extraOption = Inr offers" and "i < length offers"
  shows "(i = 0 \<longrightarrow> category (offers ! i) = recommended \<and> badge (offers ! i) = Some RECOMMENDED)
       \<and> (i = 1 \<longrightarrow> category (offers ! i) = cheaper \<and> badge (offers ! i) = Some CHEAPER)
       \<and> (2 \<le> i \<longrightarrow> category (offers ! i) = faster \<and> badge (offers ! i) = None)"
proof -
  from getFleetOptions_shape [OF assms(1)] obtain names
    where o: "offers = map (\<lambda>(i, n). buildVehicle n i) (enumerate 0 names)" by blast
  with assms(2) have "i < length names" by simp
  then have v: "offers ! i = buildVehicle (names ! i) i"
    by (simp add: o nth_enumerate_eq)
  show ?thesis
    unfolding v by (simp add: rank_buildVehicle)
qed

theorem getFleetOptions_rank_witness:
  "\<exists>offers. getFleetOptions Package (Some ''0-5kg'') = Inr offers \<and> length offers = 3
     \<and> category (offers ! 0) = recommended \<and> badge (offers ! 0) = Some RECOMMENDED
     \<and> category (offers ! 1) = cheaper \<and> badge (offers ! 1) = Some CHEAPER
     \<and> category (offers ! 2) = faster \<and> badge (offers ! 2) = None"
proof -
  let ?offers = "map (\<lambda>(i, n). buildVehicle n i) (enumerate 0 [''Bicycle'', ''Motorbike'', ''Car''])"
  have c: "configured Package ''0-5kg'' [''Bicycle'', ''Motorbike'', ''Car'']"
    by (simp add: configured_def packageMatrix_def)
  have o: "getFleetOptions Package (Some ''0-5kg'') = Inr ?offers"
    by (rule getFleetOptions_configured [OF c])
  have l: "length ?offers = 3" by simp
  from l have "0 < length ?offers" "1 < length ?offers" "2 < length ?offers" by simp_all
  from this [THEN getFleetOptions_rank [OF o]]
  have "category (?offers ! 0) = recommended \<and> badge (?offers ! 0) = Some RECOMMENDED"
    "category (?offers ! 1) = cheaper \<and> badge (?offers ! 1) = Some CHEAPER"
    "category (?offers ! 2) = faster \<and> badge (?offers ! 2) = None"
    by blast+
  with o l show ?thesis by blast
qed



text \<open>
  C4. For truck and \<open>house-shifting\<close> the resolver returns exactly two offers: the
  1 Ton Truck with price 180, original price 230, ETA 20 min and the badge \<open>RECOMMENDED\<close>,
  and the 3 Ton Truck with price 280, original price 350, ETA 28 min and the badge
  \<open>CHEAPER\<close>. For package and \<open>0-5kg\<close> it returns exactly three offers, named Bicycle,
  Motorbike and Car, with the ETAs 15 min, 8 min and 14 min and the badges \<open>RECOMMENDED\<close>,
  \<open>CHEAPER\<close> and none.
\<close>

theorem getFleetOptions_scenarios:
  "(\<exists>offers. getFleetOptions Truck (Some ''house-shifting'') = Inr offers
      \<and> map (\<lambda>v. (name v, price v, originalPrice v, eta v, badge v)) offers =
          [(''1 Ton Truck'', 180, Some 230, ''20 min'', Some RECOMMENDED),
           (''3 Ton Truck'', 280, Some 350, ''28 min'', Some CHEAPER)])
 \<and> (\<exists>offers. getFleetOptions Package (Some ''0-5kg'') = Inr offers
      \<and> map (\<lambda>v. (name v, eta v, badge v)) offers =
          [(''Bicycle'', ''15 min'', Some RECOMMENDED),
           (''Motorbike'', ''8 min'', Some CHEAPER),
           (''Car'', ''14 min'', None)])"
  by (simp add: house_shifting_offers zero_five_kg_offers)

text \<open>
  C5. For the ride service, \<open>getFleetOptions\<close> returns the empty list for every sub-option
  key, the absent one included.
\<close>

theorem getFleetOptions_ride: "getFleetOptions Ride extraOption = Inr []"
  by (simp add: getFleetOptions_def)

text \<open>
  C6 says that \<open>getFleetOptions\<close> never throws and returns the empty list for every pair
  that is not configured. The code throws for the truck service and the key
  \<open>constructor\<close>: the key is not configured, the matrix object inherits the function
  \<open>Object\<close> under that name, \<open>|| []\<close> keeps it, its \<open>length\<close> is \<open>1\<close>, and it has no method
  \<open>map\<close>. (Lemma \<open>getFleetOptions_unconfigured\<close> shows the keys for which the claim
  holds.)
\<close>

theorem getFleetOptions_inherited_key_throws:
  "map_of truckMatrix ''constructor'' = None
   \<and> getFleetOptions Truck (Some ''constructor'') = Inl TypeError"
  by (simp add: getFleetOptions_def optionKey_def namesOf_def getProperty_def truckMatrix_def
      objectPrototype_def)

text \<open>
  C7. For every display name of the catalog, \<open>getVehicleDisplayInfo\<close> at the slug of the
  name returns that name together with the icon of its catalog entry. In particular the
  slug of \<open>3 Ton Truck\<close> is \<open>3-ton-truck\<close>, and \<open>getVehicleDisplayInfo\<close> at \<open>3-ton-truck\<close>
  returns the name \<open>3 Ton Truck\<close> with the articulated-lorry glyph.
\<close>

theorem getVehicleDisplayInfo_round_trip:
  assumes "(n, m) \<in> set vehicleMetadata"
  shows "(\<exists>g. md_icon m = Some g
            \<and> getVehicleDisplayInfo (slug n) = Inr \<lparr>display_name = n, display_icon = g\<rparr>)
       \<and> slug ''3 Ton Truck'' = ''3-ton-truck''
       \<and> getVehicleDisplayInfo ''3-ton-truck'' =
           Inr \<lparr>display_name = ''3 Ton Truck'', display_icon = articulatedLorryGlyph\<rparr>"
proof -
  have s: "slug ''3 Ton Truck'' = ''3-ton-truck''"
    by (simp add: slug_defs)
  have "(''3 Ton Truck'', catalogEntry articulatedLorryGlyph ''3 Tons'' ''Medium loads'' 280 350)
          \<in> set vehicleMetadata"
    by (simp add: vehicleMetadata_def)
  from getVehicleDisplayInfo_found [OF this]
  have "getVehicleDisplayInfo ''3-ton-truck'' =
          Inr \<lparr>display_name = ''3 Ton Truck'', display_icon = articulatedLorryGlyph\<rparr>"
    by (simp add: s catalogEntry_def)
  with s getVehicleDisplayInfo_found [OF assms] show ?thesis by simp
qed

theorem getVehicleDisplayInfo_round_trip_witness:
  "(''Motorbike'', catalogEntry motorcycleGlyph ''10kg'' ''Fast delivery'' 40 55)
     \<in> set vehicleMetadata
   \<and> slug ''Motorbike'' = ''motorbike''
   \<and> getVehicleDisplayInfo ''motorbike'' =
       Inr \<lparr>display_name = ''Motorbike'', display_icon = motorcycleGlyph\<rparr>"
proof -
  have e: "(''Motorbike'', catalogEntry motorcycleGlyph ''10kg'' ''Fast delivery'' 40 55)
             \<in> set vehicleMetadata"
    by (simp add: vehicleMetadata_def)
  have s: "slug ''Motorbike'' = ''motorbike''"
    by (simp add: slug_defs)
  from getVehicleDisplayInfo_round_trip [OF e]
  have "getVehicleDisplayInfo ''motorbike'' =
          Inr \<lparr>display_name = ''Motorbike'', display_icon = motorcycleGlyph\<rparr>"
    by (simp add: s catalogEntry_def)
  with e s show ?thesis by simp
qed

text \<open>
  C8. For every identifier that is the slug of no display name of the catalog,
  \<open>getVehicleDisplayInfo\<close> returns the placeholder with the name \<open>Vehicle\<close> and the car
  glyph, and does not fail; \<open>unknown-id\<close> is such an identifier.
\<close>

theorem getVehicleDisplayInfo_placeholder:
  assumes "vehicleId \<notin> slug ` fst ` set vehicleMetadata"
  shows "getVehicleDisplayInfo vehicleId =
           Inr \<lparr>display_name = ''Vehicle'', display_icon = carGlyph\<rparr>
       \<and> getVehicleDisplayInfo ''unknown-id'' =
           Inr \<lparr>display_name = ''Vehicle'', display_icon = carGlyph\<rparr>"
  using getVehicleDisplayInfo_not_found [OF assms]
    getVehicleDisplayInfo_not_found [OF unknown_id_no_slug]
  by simp

theorem getVehicleDisplayInfo_placeholder_witness:
  "''3-ton-lorry'' \<notin> slug ` fst ` set vehicleMetadata
   \<and> getVehicleDisplayInfo ''3-ton-lorry'' =
       Inr \<lparr>display_name = ''Vehicle'', display_icon = carGlyph\<rparr>"
proof -
  have "slug ` fst ` set vehicleMetadata = set (map slug (map fst vehicleMetadata))"
    by (simp add: image_image)
  then have n: "''3-ton-lorry'' \<notin> slug ` fst ` set vehicleMetadata"
    unfolding catalog_slugs by simp
  from getVehicleDisplayInfo_placeholder [OF n] n show ?thesis by simp
qed

text \<open>
  C9. No two distinct display names among the keys of the catalog have the same slug, so
  every identifier is the slug of at most one key of the catalog.
\<close>

theorem slug_unique:
  "inj_on slug (fst ` set vehicleMetadata)
   \<and> (\<forall>v. length (filter (\<lambda>key. slug key = v) (map fst vehicleMetadata)) \<le> 1)"
proof -
  have "inj_on slug (set (map fst vehicleMetadata))"
    using catalog_slugs_distinct by (simp only: distinct_map)
  then have "inj_on slug (fst ` set vehicleMetadata)" by simp
  moreover have "length (filter (\<lambda>key. slug key = v) (map fst vehicleMetadata)) \<le> 1" for v
    using catalog_slugs_distinct by (rule filter_distinct_le_one)
  ultimately show ?thesis by blast
qed

text \<open>
  C10. Every vehicle name in an entry of the truck, package or towing matrix is a key of
  the catalog and of the table of base durations. At each such name the left operand of
  every \<open>||\<close> of the resolver is truthy (description, price, capacity, icon, and the base
  duration), so no default is used: the offer that \<open>getFleetOptions\<close> returns for the name
  carries the description, price, capacity and icon of the catalog entry, and its ETA is
  computed from the table's base duration.
\<close>

theorem matrix_names_covered:
  assumes "configured serviceType key names" and "i < length names"
  shows "\<exists>m b offers.
           map_of vehicleMetadata (names ! i) = Some m \<and> map_of baseETAs (names ! i) = Some b
         \<and> truthyString (md_description m) \<and> truthyNumber (md_price m)
         \<and> truthyCapacity (md_capacity m) \<and> truthyString (md_icon m) \<and> b \<noteq> 0
         \<and> getFleetOptions serviceType (Some key) = Inr offers
         \<and> Some (description (offers ! i)) = md_description m
         \<and> Some (price (offers ! i)) = md_price m
         \<and> Some (capacity (offers ! i)) = md_capacity m
         \<and> Some (icon (offers ! i)) = md_icon m
         \<and> eta (offers ! i) = numberToString (b + i * 3) @ '' min''"
proof -
  let ?n = "names ! i"
  let ?offers = "map (\<lambda>(i, n). buildVehicle n i) (enumerate 0 names)"
  from configured_cases [OF assms(1)] assms(2)
  have c: "?n \<in> set (map fst vehicleMetadata)" by (meson nth_mem subsetD)
  then obtain m where m: "(?n, m) \<in> set vehicleMetadata" by auto
  with catalog_keys_distinct have mm: "map_of vehicleMetadata ?n = Some m" by simp
  from c catalog_covered have "?n \<in> set (map fst baseETAs)" by blast
  then obtain b where b: "map_of baseETAs ?n = Some b"
    by (metis map_of_eq_None_iff not_Some_eq set_map)
  from catalog_entries [OF m]
  have t: "truthyString (md_description m)" "truthyNumber (md_price m)"
    "truthyCapacity (md_capacity m)" "truthyString (md_icon m)"
    by auto
  have md: "metadataOf ?n = m" by (simp add: metadataOf_def getProperty_def mm)
  from assms(2) have o: "?offers ! i = buildVehicle ?n i" by (simp add: nth_enumerate_eq)
  have "Some (description (?offers ! i)) = md_description m"
    "Some (price (?offers ! i)) = md_price m"
    "Some (capacity (?offers ! i)) = md_capacity m"
    "Some (icon (?offers ! i)) = md_icon m"
    "eta (?offers ! i) = numberToString (b + i * 3) @ '' min''"
    unfolding o
    by (simp_all add: buildVehicle_def md Let_def orString_truthy orNumber_truthy
        orCapacity_truthy t calculateETA_own [OF b] split: prod.split)
  with mm b t baseETAs_nonzero [OF b] getFleetOptions_configured [OF assms(1)]
  show ?thesis by blast
qed

theorem matrix_names_covered_witness:
  "configured Package ''20-50kg'' [''Small Van'', ''Bakkie'']
   \<and> (1::nat) < length [''Small Van'', ''Bakkie'']
   \<and> (\<exists>m b offers.
         map_of vehicleMetadata ''Bakkie'' = Some m \<and> map_of baseETAs ''Bakkie'' = Some b
       \<and> truthyString (md_description m) \<and> truthyNumber (md_price m)
       \<and> truthyCapacity (md_capacity m) \<and> truthyString (md_icon m) \<and> b \<noteq> 0
       \<and> getFleetOptions Package (Some ''20-50kg'') = Inr offers
       \<and> Some (description (offers ! 1)) = md_description m
       \<and> Some (price (offers ! 1)) = md_price m
       \<and> Some (capacity (offers ! 1)) = md_capacity m
       \<and> Some (icon (offers ! 1)) = md_icon m
       \<and> eta (offers ! 1) = numberToString (b + 1 * 3) @ '' min'')"
proof -
  have c: "configured Package ''20-50kg'' [''Small Van'', ''Bakkie'']"
    by (simp add: configured_def packageMatrix_def)
  have l: "(1::nat) < length [''Small Van'', ''Bakkie'']" by simp
  from matrix_names_covered [OF c l] c l show ?thesis by simp
qed

end
